theory Spec2Isabelle
  imports Complex_Main
begin

section \<open>Numbers, series and data frames\<close>

text \<open>
  The analyzer of \<^verbatim>\<open>backend/src/database/queries/bias_detection.py\<close> computes with
  Python floats on pandas objects. Floats are modelled by exact rationals; the one
  non-number a float can be here, NaN, is \<open>None\<close>. Arithmetic with NaN gives NaN and
  every comparison with NaN is false, as in Python.
\<close>

type_synonym pyfloat = "rat option"

definition fsub :: "pyfloat \<Rightarrow> pyfloat \<Rightarrow> pyfloat" where
  "fsub a b = (case a of None \<Rightarrow> None
               | Some x \<Rightarrow> (case b of None \<Rightarrow> None | Some y \<Rightarrow> Some (x - y)))"

definition fgt :: "pyfloat \<Rightarrow> rat \<Rightarrow> bool" where
  "fgt a t = (case a of None \<Rightarrow> False | Some x \<Rightarrow> t < x)"

definition flt :: "pyfloat \<Rightarrow> rat \<Rightarrow> bool" where
  "flt a t = (case a of None \<Rightarrow> False | Some x \<Rightarrow> x < t)"

text \<open>Exceptions that the modelled code can raise.\<close>

datatype py_error = OverflowError | ZeroDivisionError | AttributeError | ValueError

text \<open>
  One row of the data frame that \<open>analyze_recommendation_bias\<close> reads: the columns of
  its query. The demographic columns are nullable (a null is \<open>None\<close>).
  Modelled from the spec: the column types come from the spec's RecommendationRecord
  and UserDemographics (\<open>models.py\<close> is not among the sources): the confidence score is
  a number, the engagement score is optional.
\<close>

record row =
  resource_type :: string
  age_group :: "string option"
  gender_identity :: "string option"
  race_ethnicity :: "string option"
  confidence_score :: rat
  engagement_score :: "rat option"
  status :: string
  income_level :: "string option"

text \<open>\<open>Series.unique()\<close>: the distinct values in order of first appearance.\<close>

definition unique :: "'a list \<Rightarrow> 'a list" where
  "unique xs = rev (remdups (rev xs))"

primrec dropna :: "'a option list \<Rightarrow> 'a list" where
  "dropna [] = []"
| "dropna (v # vs) = (case v of None \<Rightarrow> dropna vs | Some x \<Rightarrow> x # dropna vs)"

text \<open>
  \<open>df.groupby(col).size()\<close> and \<open>df[col].value_counts()\<close>: the number of rows of every
  group that occurs; rows whose key is null belong to no group. A series is an
  association list with distinct keys (the order of the keys is not modelled: every
  use below is a dictionary or a maximum).
\<close>

definition groupby_size :: "('r \<Rightarrow> string option) \<Rightarrow> 'r list \<Rightarrow> (string \<times> nat) list" where
  "groupby_size col df =
     map (\<lambda>g. (g, length (filter (\<lambda>r. col r = Some g) df))) (unique (dropna (map col df)))"

text \<open>\<open>Series.max()\<close> and \<open>Series.min()\<close> skip NaN and are NaN on an empty series.\<close>

definition series_max :: "pyfloat list \<Rightarrow> pyfloat" where
  "series_max vs = (case dropna vs of [] \<Rightarrow> None | x # xs \<Rightarrow> Some (fold max xs x))"

definition series_min :: "pyfloat list \<Rightarrow> pyfloat" where
  "series_min vs = (case dropna vs of [] \<Rightarrow> None | x # xs \<Rightarrow> Some (fold min xs x))"

text \<open>
  Division of two series of counts: pandas aligns them on the union of their keys, and
  a key missing on either side gives NaN.
\<close>

definition series_div :: "(string \<times> nat) list \<Rightarrow> (string \<times> nat) list \<Rightarrow> (string \<times> pyfloat) list" where
  "series_div a b =
     map (\<lambda>k. (k, case map_of a k of None \<Rightarrow> None
                  | Some x \<Rightarrow> (case map_of b k of None \<Rightarrow> None
                      | Some y \<Rightarrow> Some (of_nat x / of_nat y))))
       (unique (map fst a @ map fst b))"

definition fillna :: "rat \<Rightarrow> (string \<times> pyfloat) list \<Rightarrow> (string \<times> rat) list" where
  "fillna d s = map (\<lambda>(k, v). (k, case v of None \<Rightarrow> d | Some x \<Rightarrow> x)) s"

definition mean :: "rat list \<Rightarrow> pyfloat" where
  "mean xs = (if xs = [] then None else Some (sum_list xs / of_nat (length xs)))"

section \<open>The analyzer and the statistics library\<close>

text \<open>The thresholds that \<open>__init__\<close> sets.\<close>

record analyzer =
  significance_level :: rat
  effect_size_threshold :: rat
  fairness_threshold :: rat

definition init_analyzer :: analyzer where
  "init_analyzer = \<lparr>significance_level = 5 / 100, effect_size_threshold = 2 / 10,
     fairness_threshold = 1 / 10\<rparr>"

text \<open>
  Two functions of \<open>scipy.stats\<close> are parameters of the model: the upper tail of the
  chi-square distribution (\<open>chi2_sf dof x\<close>) and \<open>pearsonr\<close>, which returns a
  correlation coefficient and a p-value (NaN on constant input).
\<close>

record stats =
  chi2_sf :: "nat \<Rightarrow> rat \<Rightarrow> rat"
  pearsonr :: "rat list \<Rightarrow> rat list \<Rightarrow> pyfloat \<times> pyfloat"

text \<open>
  \<open>scipy.stats.chi2_contingency\<close> on a two-dimensional table of counts, as the library
  documents it: the expected frequencies come from the marginal sums of the table
  itself, an empty table or a zero expected frequency is a \<open>ValueError\<close>, the degrees of freedom are
  \<open>(rows - 1) * (columns - 1)\<close>, with no degree of freedom the result is statistic 0
  and p-value 1, and with one degree of freedom Yates' correction moves every observed
  count towards its expectation by at most one half. It returns the statistic and the
  p-value (the first two components that the caller takes).
\<close>

definition expected_freq :: "nat list list \<Rightarrow> rat list list" where
  "expected_freq observed =
     (let total = sum_list (map sum_list observed);
          cols = (case observed of [] \<Rightarrow> [] | r # _ \<Rightarrow> [0..<length r])
      in map (\<lambda>r. map (\<lambda>j. of_nat (sum_list r) * of_nat (sum_list (map (\<lambda>q. q ! j) observed))
                              / of_nat total) cols) observed)"

definition yates :: "rat \<Rightarrow> rat \<Rightarrow> rat" where
  "yates ob ex = (let diff = ex - ob; magnitude = min (1 / 2) \<bar>diff\<bar>
                  in ob + magnitude * sgn diff)"

definition chi2_contingency :: "stats \<Rightarrow> nat list list \<Rightarrow> py_error + (rat \<times> rat)" where
  "chi2_contingency st observed =
     (let expected = expected_freq observed;
          nrows = length observed;
          ncols = (case observed of [] \<Rightarrow> 0 | r # _ \<Rightarrow> length r);
          dof = (nrows - 1) * (ncols - 1)
      in if concat observed = [] then Inl ValueError
         else if list_ex (\<lambda>e. e = 0) (concat expected) then Inl ValueError
         else if dof = 0 then Inr (0, 1)
         else
           let obs = map of_nat (concat observed);
               obs' = (if dof = 1 then map2 yates obs (concat expected) else obs);
               chi2 = sum_list (map2 (\<lambda>ob ex. (ob - ex)\<^sup>2 / ex) obs' (concat expected))
           in Inr (chi2, chi2_sf st dof chi2))"

section \<open>Bias tests for one resource type\<close>

text \<open>
  The three demographic-parity blocks of \<open>_analyze_resource_type_bias\<close> run the same
  code on three columns: the rates \<open>df.groupby(col).size() / len(df)\<close>, the difference
  of their maximum and minimum, and its comparison with the fairness threshold.
\<close>

record parity =
  rates :: "(string \<times> rat) list"
  max_difference :: pyfloat
  biased :: bool

definition group_rates :: "('r \<Rightarrow> string option) \<Rightarrow> 'r list \<Rightarrow> (string \<times> rat) list" where
  "group_rates col df = map (\<lambda>(g, n). (g, of_nat n / of_nat (length df))) (groupby_size col df)"

definition demographic_parity :: "analyzer \<Rightarrow> (row \<Rightarrow> string option) \<Rightarrow> row list \<Rightarrow> parity" where
  "demographic_parity self col df =
     (let rs = group_rates col df;
          d = fsub (series_max (map (Some \<circ> snd) rs)) (series_min (map (Some \<circ> snd) rs))
      in \<lparr>rates = rs, max_difference = d, biased = fgt d (fairness_threshold self)\<rparr>)"

text \<open>Equalized odds: the share of successful rows per race group.\<close>

record equalized_odds_entry =
  success_rates :: "(string \<times> rat) list"
  eo_max_difference :: pyfloat
  eo_biased :: bool

definition successful_outcomes :: "row list \<Rightarrow> row list" where
  "successful_outcomes df = filter (\<lambda>r. status r = ''engaged'' \<or> status r = ''completed'') df"

definition success_by_race :: "row list \<Rightarrow> (string \<times> pyfloat) list" where
  "success_by_race df =
     series_div (groupby_size race_ethnicity (successful_outcomes df))
                (groupby_size race_ethnicity df)"

definition equalized_odds_race :: "analyzer \<Rightarrow> row list \<Rightarrow> equalized_odds_entry option" where
  "equalized_odds_race self df =
     (if 0 < length (successful_outcomes df) then
        let s = success_by_race df;
            d = fsub (series_max (map snd s)) (series_min (map snd s))
        in Some \<lparr>success_rates = fillna 0 s,
                 eo_max_difference = (if 1 < length s then d else Some 0),
                 eo_biased = (1 < length s \<and> fgt d (fairness_threshold self))\<rparr>
      else None)"

text \<open>
  Calibration. \<open>pd.cut(x, bins=5)\<close> cuts the observed range of \<open>x\<close> into five intervals
  of equal width, open on the left and closed on the right; the lowest edge is moved
  down by 0.1 percent of the range so that the minimum falls into the first interval
  (when all values are equal, both ends are moved apart first).
\<close>

definition linspace :: "rat \<Rightarrow> rat \<Rightarrow> nat \<Rightarrow> rat list" where
  "linspace a b n = map (\<lambda>i. a + of_nat i * (b - a) / of_nat n) [0..<Suc n]"

definition cut_edges :: "rat list \<Rightarrow> nat \<Rightarrow> rat list" where
  "cut_edges xs nbins =
     (case xs of [] \<Rightarrow> []
      | x # ys \<Rightarrow>
         let mn = fold min ys x; mx = fold max ys x
         in if mn = mx then
              linspace (mn - (if mn \<noteq> 0 then \<bar>mn\<bar> / 1000 else 1 / 1000))
                       (mx + (if mx \<noteq> 0 then \<bar>mx\<bar> / 1000 else 1 / 1000)) nbins
            else
              (let bins = linspace mn mx nbins in bins[0 := bins ! 0 - (mx - mn) / 1000]))"

definition bin_index :: "rat list \<Rightarrow> rat \<Rightarrow> nat option" where
  "bin_index edges x =
     (let ids = length (filter (\<lambda>e. e < x) edges)
      in if ids = 0 \<or> ids = length edges then None else Some (ids - 1))"

definition bin_labels :: "string list" where
  "bin_labels = [''very_low'', ''low'', ''medium'', ''high'', ''very_high'']"

text \<open>
  \<open>df.groupby('confidence_bin').agg(mean).dropna()\<close>: per interval the mean engagement
  score (nulls skipped) and the mean confidence score; an interval where either mean is
  NaN is dropped. The result lists (engagement mean, confidence mean) in interval order.
\<close>

definition calibration_data :: "row list \<Rightarrow> (rat \<times> rat) list" where
  "calibration_data df =
     (let edges = cut_edges (map confidence_score df) 5
      in concat (map (\<lambda>b.
           let rs = filter (\<lambda>r. bin_index edges (confidence_score r) = Some b) df
           in (case mean (dropna (map engagement_score rs)) of None \<Rightarrow> []
               | Some e \<Rightarrow> (case mean (map confidence_score rs) of None \<Rightarrow> []
                   | Some c \<Rightarrow> [(e, c)]))) [0..<length bin_labels]))"

record calibration_entry =
  correlation :: pyfloat
  p_value :: pyfloat
  well_calibrated :: bool

definition calibration_of :: "stats \<Rightarrow> row list \<Rightarrow> calibration_entry option" where
  "calibration_of st df =
     (if 20 < length df then
        let cd = calibration_data df
        in if 2 < length cd then
             (case pearsonr st (map snd cd) (map fst cd) of
                (corr, p_val) \<Rightarrow>
                  Some \<lparr>correlation = corr, p_value = p_val,
                        well_calibrated = (fgt corr (5 / 10) \<and> flt p_val (5 / 100))\<rparr>)
           else None
      else None)"

text \<open>The chi-square test on the race counts, reshaped to a table of one row.\<close>

record chi2_entry =
  statistic :: rat
  chi2_p_value :: rat
  significant :: bool

definition race_chi2_of :: "analyzer \<Rightarrow> stats \<Rightarrow> row list \<Rightarrow> py_error + chi2_entry option" where
  "race_chi2_of self st df =
     (let race_counts = groupby_size race_ethnicity df
      in if 1 < length race_counts then
           (case chi2_contingency st [map snd race_counts] of
              Inl e \<Rightarrow> Inl e
            | Inr (chi2, p) \<Rightarrow>
                Inr (Some \<lparr>statistic = chi2, chi2_p_value = p,
                           significant = (p < significance_level self)\<rparr>))
         else Inr None)"

record bias_results =
  br_resource_type :: string
  total_count :: nat
  dp_race_ethnicity :: parity
  dp_income_level :: parity
  dp_gender_identity :: parity
  equalized_odds :: "equalized_odds_entry option"
  calibration :: "calibration_entry option"
  race_chi2 :: "chi2_entry option"

text \<open>
  \<open>_analyze_resource_type_bias\<close>. An entry that the code leaves as the empty dictionary
  is \<open>None\<close>. The chi-square test comes first in the code, so its exception, if any,
  is the function's.
\<close>

definition analyze_resource_type_bias ::
  "analyzer \<Rightarrow> stats \<Rightarrow> row list \<Rightarrow> string \<Rightarrow> py_error + bias_results" where
  "analyze_resource_type_bias self st df rt =
     (case race_chi2_of self st df of
        Inl e \<Rightarrow> Inl e
      | Inr chi \<Rightarrow>
          Inr \<lparr>br_resource_type = rt,
               total_count = length df,
               dp_race_ethnicity = demographic_parity self race_ethnicity df,
               dp_income_level = demographic_parity self income_level df,
               dp_gender_identity = demographic_parity self gender_identity df,
               equalized_odds = equalized_odds_race self df,
               calibration = calibration_of st df,
               race_chi2 = chi\<rparr>)"

section \<open>The database\<close>

text \<open>
  The three tables that the analyzer queries, with the columns it reads.
  Modelled from the spec: the column types (\<open>models.py\<close> is not among the sources).
  An enumeration column is identified with the string of its value, so that \<open>str\<close> and
  \<open>.value\<close> of a race that is not null are that string. A time is a number of
  microseconds since 0001-01-01, the first moment a Python \<open>datetime\<close> can hold.
\<close>

record user =
  pseudonym_id :: string
  u_age_group :: "string option"
  u_gender_identity :: "string option"
  u_race_ethnicity :: "string option"

record social_determinants =
  sd_user_pseudonym_id :: string
  sd_income_level :: "string option"

record resource_recommendation =
  rr_user_pseudonym_id :: string
  rr_resource_type :: string
  rr_confidence_score :: rat
  rr_engagement_score :: "rat option"
  rr_status :: string
  recommended_at :: int

record database =
  users :: "user list"
  social_determinants_rows :: "social_determinants list"
  resource_recommendations :: "resource_recommendation list"

text \<open>
  \<open>datetime.now(timezone.utc) - timedelta(days=days_back)\<close>. A \<open>timedelta\<close> holds at
  most 999999999 days either way, and the difference must lie in the years 1 to 9999;
  otherwise Python raises \<open>OverflowError\<close>. Nothing else looks at \<open>days_back\<close>.
\<close>

definition microseconds_per_day :: int where
  "microseconds_per_day = 86400000000"

definition cutoff_date :: "int \<Rightarrow> int \<Rightarrow> py_error + int" where
  "cutoff_date now days_back =
     (if 999999999 < \<bar>days_back\<bar> then Inl OverflowError
      else let c = now - days_back * microseconds_per_day
           in if c < 0 \<or> 3652059 * microseconds_per_day \<le> c then Inl OverflowError
              else Inr c)"

text \<open>
  The query of \<open>analyze_recommendation_bias\<close>: recommendations joined with their user
  and the user's social determinants, not older than the cutoff.
\<close>

definition recommendation_rows :: "database \<Rightarrow> int \<Rightarrow> row list" where
  "recommendation_rows db cutoff =
     [\<lparr>resource_type = rr_resource_type r, age_group = u_age_group u,
       gender_identity = u_gender_identity u, race_ethnicity = u_race_ethnicity u,
       confidence_score = rr_confidence_score r, engagement_score = rr_engagement_score r,
       status = rr_status r, income_level = sd_income_level sd\<rparr>.
      r \<leftarrow> resource_recommendations db,
      u \<leftarrow> users db, rr_user_pseudonym_id r = pseudonym_id u,
      sd \<leftarrow> social_determinants_rows db, pseudonym_id u = sd_user_pseudonym_id sd,
      cutoff \<le> recommended_at r]"

section \<open>Fairness metrics\<close>

text \<open>
  A Python dictionary built from pairs: the keys in order of first insertion, each with
  the value of its last pair. \<open>str\<close> of a null race is the string \<open>None\<close>.
\<close>

definition dict_of_pairs :: "('k \<times> 'v) list \<Rightarrow> ('k \<times> 'v) list" where
  "dict_of_pairs ps = map (\<lambda>k. (k, the (map_of (rev ps) k))) (unique (map fst ps))"

definition py_str :: "string option \<Rightarrow> string" where
  "py_str v = (case v of None \<Rightarrow> ''None'' | Some x \<Rightarrow> x)"

text \<open>
  \<open>SELECT race_ethnicity, count(*) FROM users GROUP BY race_ethnicity\<close>: unlike pandas,
  SQL keeps the group of the nulls.
\<close>

definition pop_race_dist :: "database \<Rightarrow> (string option \<times> nat) list" where
  "pop_race_dist db =
     map (\<lambda>g. (g, length (filter (\<lambda>u. u_race_ethnicity u = g) (users db))))
       (unique (map u_race_ethnicity (users db)))"

record representation_entry =
  population_rate :: rat
  recommendation_rate :: rat
  parity_ratio :: rat
  underrepresented :: bool

record disparate_impact_entry =
  therapy_rate :: rat
  white_therapy_rate :: rat
  ratio :: rat
  passes_80_percent_rule :: bool

record fairness_metrics =
  representation_parity :: "(string \<times> representation_entry) list"
  disparate_impact :: "(string option \<times> disparate_impact_entry) list option"

definition representation_parity_of :: "database \<Rightarrow> row list \<Rightarrow> (string \<times> representation_entry) list" where
  "representation_parity_of db df =
     (let pop_race_dict = dict_of_pairs (map (\<lambda>(race, count). (py_str race, count)) (pop_race_dist db));
          rec_race_dist = groupby_size race_ethnicity df
      in map (\<lambda>(race, count).
           let pop_rate = of_nat count / of_nat (sum_list (map snd pop_race_dict));
               rec_rate = of_nat (case map_of rec_race_dist race of None \<Rightarrow> 0 | Some n \<Rightarrow> n)
                            / of_nat (length df)
           in (race, \<lparr>population_rate = pop_rate, recommendation_rate = rec_rate,
                      parity_ratio = (if 0 < pop_rate then rec_rate / pop_rate else 0),
                      underrepresented = (if 0 < pop_rate then rec_rate / pop_rate < 8 / 10 else False)\<rparr>))
         pop_race_dict)"

text \<open>
  \<open>len(df[df['race_ethnicity'] == race])\<close>: a comparison with a null is false in every
  row, so a null race selects nothing.
\<close>

definition count_race :: "row list \<Rightarrow> string option \<Rightarrow> nat" where
  "count_race df race =
     (case race of None \<Rightarrow> 0 | Some g \<Rightarrow> length (filter (\<lambda>r. race_ethnicity r = Some g) df))"

definition therapy_rate_of :: "row list \<Rightarrow> string option \<Rightarrow> rat" where
  "therapy_rate_of df race =
     (let therapy_recs = filter (\<lambda>r. resource_type r = ''therapy'') df
      in if 0 < count_race df race
         then of_nat (count_race therapy_recs race) / of_nat (count_race df race) else 0)"

text \<open>The body of the loop over races: the ratio against the reference rate, and the 80 percent rule.\<close>

definition disparate_impact_of :: "rat \<Rightarrow> rat \<Rightarrow> disparate_impact_entry" where
  "disparate_impact_of race_therapy_rate white_rate =
     (let r = (if 0 < white_rate then race_therapy_rate / white_rate else 0)
      in \<lparr>therapy_rate = race_therapy_rate, white_therapy_rate = white_rate,
          ratio = r, passes_80_percent_rule = (8 / 10 \<le> r)\<rparr>)"

definition disparate_impact_table :: "row list \<Rightarrow> (string option \<times> disparate_impact_entry) list option" where
  "disparate_impact_table df =
     (if 0 < length (filter (\<lambda>r. resource_type r = ''therapy'') df) then
        Some (map (\<lambda>race. (race, disparate_impact_of (therapy_rate_of df race)
                                     (therapy_rate_of df (Some ''white''))))
                (filter (\<lambda>race. race \<noteq> Some ''white'') (unique (map race_ethnicity df))))
      else None)"

text \<open>
  \<open>_calculate_fairness_metrics\<close>. On an empty frame the first recommendation rate
  divides by \<open>len(df) = 0\<close>.
\<close>

definition calculate_fairness_metrics :: "database \<Rightarrow> row list \<Rightarrow> py_error + fairness_metrics" where
  "calculate_fairness_metrics db df =
     (if df = [] \<and> users db \<noteq> [] then Inl ZeroDivisionError
      else Inr \<lparr>representation_parity = representation_parity_of db df,
                disparate_impact = disparate_impact_table df\<rparr>)"

section \<open>Findings\<close>

record finding =
  finding_type :: string
  severity :: string
  subject :: string
  attribute :: string
  magnitude :: pyfloat
  description :: string
  recommended_action :: string

text \<open>
  \<open>_generate_bias_recommendations\<close>. A finding keeps the type, the severity, the
  resource type or demographic group it is about (\<open>subject\<close>), the demographic attribute
  of a parity violation, the number reported (\<open>max_difference\<close>, \<open>parity_ratio\<close> or
  \<open>ratio\<close>) and the two texts.
\<close>

definition parity_findings :: "string \<Rightarrow> bias_results \<Rightarrow> finding list" where
  "parity_findings rt bias_data =
     concat (map (\<lambda>(demo_attr, parity_data).
        if biased parity_data then
          [\<lparr>finding_type = ''demographic_parity_violation'',
            severity = (if fgt (max_difference parity_data) (3 / 10) then ''high'' else ''medium''),
            subject = rt, attribute = demo_attr, magnitude = max_difference parity_data,
            description = ''Significant disparity in '' @ rt @ '' recommendations across ''
                            @ demo_attr @ '' groups'',
            recommended_action = ''Review '' @ rt @ '' recommendation algorithm for ''
                            @ demo_attr @ '' bias''\<rparr>]
        else [])
       [(''race_ethnicity'', dp_race_ethnicity bias_data),
        (''income_level'', dp_income_level bias_data),
        (''gender_identity'', dp_gender_identity bias_data)])"

definition generate_bias_recommendations ::
  "(string \<times> bias_results) list \<Rightarrow> fairness_metrics \<Rightarrow> finding list" where
  "generate_bias_recommendations tests fm =
     concat (map (\<lambda>(rt, bias_data). parity_findings rt bias_data) tests)
     @ concat (map (\<lambda>(race, parity_data).
         if underrepresented parity_data then
           [\<lparr>finding_type = ''underrepresentation'', severity = ''medium'', subject = race,
             attribute = [], magnitude = Some (parity_ratio parity_data),
             description = race @ '' group is underrepresented in recommendations'',
             recommended_action = ''Increase outreach and algorithm tuning for '' @ race
                                    @ '' demographic''\<rparr>]
         else []) (representation_parity fm))
     @ (case disparate_impact fm of None \<Rightarrow> []
        | Some di \<Rightarrow> concat (map (\<lambda>(race, impact_data).
            if \<not> passes_80_percent_rule impact_data then
              [\<lparr>finding_type = ''disparate_impact'', severity = ''high'', subject = py_str race,
                attribute = [], magnitude = Some (ratio impact_data),
                description = ''Therapy recommendations for '' @ py_str race @ '' fail the 80% rule'',
                recommended_action = ''Immediate algorithm audit required for therapy recommendations to ''
                                       @ py_str race @ '' demographic''\<rparr>]
            else []) di))"

section \<open>The analysis of a window\<close>

text \<open>
  The result dictionary of \<open>analyze_recommendation_bias\<close> has one of two shapes: the
  single key \<open>error\<close>, or the analysis. Of the analysis the entry
  \<open>demographic_patterns\<close> (means and standard deviations of the engagement score) is
  left out: no property below reads it. The getters are \<open>dict.get\<close>.
\<close>

record analysis =
  analysis_period_days :: int
  total_recommendations :: nat
  bias_tests :: "(string \<times> bias_results) list"
  fairness :: fairness_metrics
  recommendations :: "finding list"

datatype result_dict = ErrorDict string | ResultsDict analysis

definition get_error :: "result_dict \<Rightarrow> string option" where
  "get_error d = (case d of ErrorDict msg \<Rightarrow> Some msg | ResultsDict a \<Rightarrow> None)"

definition get_total_recommendations :: "result_dict \<Rightarrow> nat option" where
  "get_total_recommendations d =
     (case d of ErrorDict msg \<Rightarrow> None | ResultsDict a \<Rightarrow> Some (total_recommendations a))"

definition get_bias_tests :: "result_dict \<Rightarrow> (string \<times> bias_results) list option" where
  "get_bias_tests d = (case d of ErrorDict msg \<Rightarrow> None | ResultsDict a \<Rightarrow> Some (bias_tests a))"

definition get_analysis_period_days :: "result_dict \<Rightarrow> int option" where
  "get_analysis_period_days d =
     (case d of ErrorDict msg \<Rightarrow> None | ResultsDict a \<Rightarrow> Some (analysis_period_days a))"

text \<open>The loop over the resource types; the first exception ends it.\<close>

fun bias_tests_loop ::
  "analyzer \<Rightarrow> stats \<Rightarrow> row list \<Rightarrow> string list \<Rightarrow> py_error + (string \<times> bias_results) list" where
  "bias_tests_loop self st df [] = Inr []"
| "bias_tests_loop self st df (rt # rts) =
     (case analyze_resource_type_bias self st (filter (\<lambda>r. resource_type r = rt) df) rt of
        Inl e \<Rightarrow> Inl e
      | Inr b \<Rightarrow> (case bias_tests_loop self st df rts of
                   Inl e \<Rightarrow> Inl e
                 | Inr bs \<Rightarrow> Inr ((rt, b) # bs)))"

definition analyze_recommendation_bias ::
  "analyzer \<Rightarrow> stats \<Rightarrow> database \<Rightarrow> int \<Rightarrow> int \<Rightarrow> py_error + result_dict" where
  "analyze_recommendation_bias self st db now days_back =
     (case cutoff_date now days_back of
        Inl e \<Rightarrow> Inl e
      | Inr cutoff \<Rightarrow>
          let df = recommendation_rows db cutoff
          in if df = [] then
               Inr (ErrorDict ''No recommendations found in the specified time period'')
             else
               (case bias_tests_loop self st df (unique (map resource_type df)) of
                  Inl e \<Rightarrow> Inl e
                | Inr tests \<Rightarrow>
                    (case calculate_fairness_metrics db df of
                       Inl e \<Rightarrow> Inl e
                     | Inr fm \<Rightarrow>
                         Inr (ResultsDict
                           \<lparr>analysis_period_days = days_back,
                            total_recommendations = length df,
                            bias_tests = tests,
                            fairness = fm,
                            recommendations = generate_bias_recommendations tests fm\<rparr>))))"

section \<open>The real-time check\<close>

text \<open>
  The recommendation passed to \<open>detect_algorithmic_bias_realtime\<close> is a dictionary
  read with \<open>get\<close>: a key may be missing.
\<close>

record recommendation_data =
  rd_resource_type :: "string option"
  rd_confidence_score :: "rat option"

datatype indicator =
  TherapyUnderrepresentation rat rat rat
| PoorCalibration rat rat rat

text \<open>
  The first component of an indicator is its \<open>severity\<close>; the others are the
  demographic and overall rate, or the predicted and actual success.
\<close>

fun ind_severity :: "indicator \<Rightarrow> rat" where
  "ind_severity (TherapyUnderrepresentation s d ov) = s"
| "ind_severity (PoorCalibration s p a) = s"

record user_demographics =
  ud_race_ethnicity :: string
  ud_age_group :: string
  ud_income_level :: "string option"

record realtime_result =
  demographics :: user_demographics
  bias_indicators :: "(string \<times> indicator) list"
  bias_detected :: bool
  max_severity :: rat

datatype realtime_dict = RealtimeError string | RealtimeResult realtime_result

text \<open>The user joined with the social determinants: \<open>first()\<close> of the matching pairs.\<close>

definition user_lookup :: "database \<Rightarrow> string \<Rightarrow> (user \<times> social_determinants) option" where
  "user_lookup db user_id =
     (case [(u, sd). u \<leftarrow> users db, sd \<leftarrow> social_determinants_rows db,
              pseudonym_id u = sd_user_pseudonym_id sd, pseudonym_id u = user_id] of
        [] \<Rightarrow> None | x # _ \<Rightarrow> Some x)"

text \<open>
  The two counts of the cohort of a user: the therapy recommendations to users of the
  same race and income level (\<open>similar_users\<close>), and those users themselves
  (\<open>total_similar\<close>).
\<close>

definition similar_users :: "database \<Rightarrow> user \<Rightarrow> social_determinants \<Rightarrow> nat" where
  "similar_users db usr sdoh =
     length [r. r \<leftarrow> resource_recommendations db,
                u \<leftarrow> users db, rr_user_pseudonym_id r = pseudonym_id u,
                sd \<leftarrow> social_determinants_rows db, pseudonym_id u = sd_user_pseudonym_id sd,
                u_race_ethnicity u = u_race_ethnicity usr,
                sd_income_level sd = sd_income_level sdoh,
                rr_resource_type r = ''therapy'']"

definition total_similar :: "database \<Rightarrow> user \<Rightarrow> social_determinants \<Rightarrow> nat" where
  "total_similar db usr sdoh =
     length [u. u \<leftarrow> users db,
                sd \<leftarrow> social_determinants_rows db, pseudonym_id u = sd_user_pseudonym_id sd,
                u_race_ethnicity u = u_race_ethnicity usr,
                sd_income_level sd = sd_income_level sdoh]"

text \<open>
  The therapy check on its four counts: the two of the cohort, the therapy
  recommendations and all recommendations. The overall rate divides by the number of
  all recommendations, which raises when there is none.
\<close>

definition therapy_underrepresentation ::
  "nat \<Rightarrow> nat \<Rightarrow> nat \<Rightarrow> nat \<Rightarrow> py_error + indicator option" where
  "therapy_underrepresentation similar_count cohort_count therapy_count all_count =
     (if 0 < cohort_count then
        if all_count = 0 then Inl ZeroDivisionError
        else
          let demographic_therapy_rate = of_nat similar_count / of_nat cohort_count;
              overall_therapy_rate = of_nat therapy_count / of_nat all_count;
              rate_ratio = (if 0 < overall_therapy_rate
                            then demographic_therapy_rate / overall_therapy_rate else 0)
          in if rate_ratio < 8 / 10
             then Inr (Some (TherapyUnderrepresentation (1 - rate_ratio)
                               demographic_therapy_rate overall_therapy_rate))
             else Inr None
      else Inr None)"

definition therapy_check ::
  "database \<Rightarrow> user \<Rightarrow> social_determinants \<Rightarrow> recommendation_data \<Rightarrow> py_error + indicator option" where
  "therapy_check db usr sdoh rd =
     (if rd_resource_type rd = Some ''therapy'' then
        therapy_underrepresentation (similar_users db usr sdoh) (total_similar db usr sdoh)
          (length (filter (\<lambda>r. rr_resource_type r = ''therapy'') (resource_recommendations db)))
          (length (resource_recommendations db))
      else Inr None)"

text \<open>
  The calibration check: among the recommendations whose confidence is within 0.1 of
  the current one, the share that was engaged or completed.
\<close>

definition calibration_check :: "database \<Rightarrow> recommendation_data \<Rightarrow> indicator option" where
  "calibration_check db rd =
     (let confidence = (case rd_confidence_score rd of None \<Rightarrow> 0 | Some c \<Rightarrow> c)
      in if 0 < confidence then
           let near = filter (\<lambda>r. confidence - 1 / 10 \<le> rr_confidence_score r
                                  \<and> rr_confidence_score r \<le> confidence + 1 / 10)
                        (resource_recommendations db);
               similar_confidence_recs =
                 length (filter (\<lambda>r. rr_status r = ''engaged'' \<or> rr_status r = ''completed'') near);
               total_similar_confidence = length near
           in if 10 < total_similar_confidence then
                let actual_success_rate = of_nat similar_confidence_recs / of_nat total_similar_confidence;
                    calibration_error = \<bar>confidence - actual_success_rate\<bar>
                in if 2 / 10 < calibration_error
                   then Some (PoorCalibration calibration_error confidence actual_success_rate)
                   else None
              else None
         else None)"

definition indicator_entry :: "string \<Rightarrow> indicator option \<Rightarrow> (string \<times> indicator) list" where
  "indicator_entry key v = (case v of None \<Rightarrow> [] | Some i \<Rightarrow> [(key, i)])"

text \<open>
  \<open>detect_algorithmic_bias_realtime\<close>. The result takes \<open>.value\<close> of the user's race and
  age group, an \<open>AttributeError\<close> when either is null (the description of the therapy
  indicator takes \<open>.value\<close> of the race as well, with the same exception).
\<close>

definition detect_algorithmic_bias_realtime ::
  "database \<Rightarrow> string \<Rightarrow> recommendation_data \<Rightarrow> py_error + realtime_dict" where
  "detect_algorithmic_bias_realtime db user_id rd =
     (case user_lookup db user_id of
        None \<Rightarrow> Inr (RealtimeError ''User not found'')
      | Some (usr, sdoh) \<Rightarrow>
          (case therapy_check db usr sdoh rd of
             Inl e \<Rightarrow> Inl e
           | Inr therapy \<Rightarrow>
               (case (u_race_ethnicity usr, u_age_group usr) of
                  (Some race, Some age) \<Rightarrow>
                    let indicators = indicator_entry ''therapy_underrepresentation'' therapy
                                     @ indicator_entry ''poor_calibration'' (calibration_check db rd)
                    in Inr (RealtimeResult
                         \<lparr>demographics = \<lparr>ud_race_ethnicity = race, ud_age_group = age,
                                           ud_income_level = sd_income_level sdoh\<rparr>,
                          bias_indicators = indicators,
                          bias_detected = (0 < length indicators),
                          max_severity = (case map (ind_severity \<circ> snd) indicators of
                                            [] \<Rightarrow> 0 | x # xs \<Rightarrow> fold max xs x)\<rparr>)
                | _ \<Rightarrow> Inl AttributeError)))"

section \<open>The notions of the specification\<close>


text \<open>
  The specification's chi-square test: goodness of fit against the uniform expectation
  \<open>total / k\<close>.
\<close>

definition goodness_of_fit_uniform :: "nat list \<Rightarrow> rat" where
  "goodness_of_fit_uniform observed =
     (let expected = of_nat (sum_list observed) / of_nat (length observed)
      in sum_list (map (\<lambda>ob. (of_nat ob - expected)\<^sup>2 / expected) observed))"

text \<open>
  The specification's equalized odds, in its own words: per race group with at least
  one row, the success rate is the number of successful rows (engaged or completed) of
  the group over the number of its rows; \<open>max_difference\<close> is the largest rate minus
  the smallest, and \<open>biased\<close> says that it exceeds the threshold.
\<close>

definition races :: "row list \<Rightarrow> string set" where
  "races df = {g. Some g \<in> set (map race_ethnicity df)}"

definition group_total :: "row list \<Rightarrow> string \<Rightarrow> nat" where
  "group_total df g = length (filter (\<lambda>r. race_ethnicity r = Some g) df)"

definition success_count :: "row list \<Rightarrow> string \<Rightarrow> nat" where
  "success_count df g =
     length (filter (\<lambda>r. race_ethnicity r = Some g
                          \<and> (status r = ''engaged'' \<or> status r = ''completed'')) df)"

definition success_rate :: "row list \<Rightarrow> string \<Rightarrow> rat" where
  "success_rate df g = of_nat (success_count df g) / of_nat (group_total df g)"

definition success_rates_spec :: "row list \<Rightarrow> equalized_odds_entry \<Rightarrow> bool" where
  "success_rates_spec df e \<longleftrightarrow>
     (\<forall>g. map_of (success_rates e) g = (if g \<in> races df then Some (success_rate df g) else None))"

definition max_difference_spec :: "rat \<Rightarrow> row list \<Rightarrow> equalized_odds_entry \<Rightarrow> bool" where
  "max_difference_spec thr df e \<longleftrightarrow>
     eo_max_difference e =
       Some (if races df = {} then 0
             else Max (success_rate df ` races df) - Min (success_rate df ` races df)) \<and>
     eo_biased e =
       (races df \<noteq> {} \<and> thr < Max (success_rate df ` races df) - Min (success_rate df ` races df))"





text \<open>
  The specification's rate of a cohort: the records attributable to the group over the
  records of the same population, here the therapy recommendations to the cohort over
  all recommendations to the cohort.
\<close>

definition cohort_recommendations ::
  "database \<Rightarrow> user \<Rightarrow> social_determinants \<Rightarrow> resource_recommendation list" where
  "cohort_recommendations db usr sdoh =
     [r. r \<leftarrow> resource_recommendations db,
         u \<leftarrow> users db, rr_user_pseudonym_id r = pseudonym_id u,
         sd \<leftarrow> social_determinants_rows db, pseudonym_id u = sd_user_pseudonym_id sd,
         u_race_ethnicity u = u_race_ethnicity usr,
         sd_income_level sd = sd_income_level sdoh]"

definition cohort_therapy_share :: "database \<Rightarrow> user \<Rightarrow> social_determinants \<Rightarrow> rat" where
  "cohort_therapy_share db usr sdoh =
     of_nat (length (filter (\<lambda>r. rr_resource_type r = ''therapy'') (cohort_recommendations db usr sdoh)))
       / of_nat (length (cohort_recommendations db usr sdoh))"

text \<open>
  The specification's overall therapy rate, and the ratio it compares with 0.8: the
  share of therapy among the cohort's recommendations over the share of therapy among
  all recommendations.
\<close>

definition overall_therapy_share :: "database \<Rightarrow> rat" where
  "overall_therapy_share db =
     of_nat (length (filter (\<lambda>r. rr_resource_type r = ''therapy'') (resource_recommendations db)))
       / of_nat (length (resource_recommendations db))"

definition share_ratio :: "database \<Rightarrow> user \<Rightarrow> social_determinants \<Rightarrow> rat" where
  "share_ratio db usr sdoh = cohort_therapy_share db usr sdoh / overall_therapy_share db"

section \<open>Auxiliary definitions\<close>

text \<open>The keys of the series of success rates.\<close>

definition race_keys :: "row list \<Rightarrow> string list" where
  "race_keys df = unique (map fst (groupby_size race_ethnicity (successful_outcomes df))
                          @ map fst (groupby_size race_ethnicity df))"

text \<open>The message of the error dictionary.\<close>

definition no_recommendations :: string where
  "no_recommendations = ''No recommendations found in the specified time period''"

section \<open>Example data\<close>

text \<open>
  A stand-in for the statistics library (its tail probability is always 1, its
  correlation always 0.9 with p-value 0.01) and a row builder, for the examples: a
  recommendation of the given resource type to a user of the given race group, with the
  given status.
\<close>

definition example_stats :: stats where
  "example_stats = \<lparr>chi2_sf = (\<lambda>dof x. 1), pearsonr = (\<lambda>x y. (Some (9 / 10), Some (1 / 100)))\<rparr>"

definition rec_row :: "string \<Rightarrow> string option \<Rightarrow> string \<Rightarrow> row" where
  "rec_row rt race st =
     \<lparr>resource_type = rt, age_group = Some ''adult'', gender_identity = Some ''female'',
      race_ethnicity = race, confidence_score = 1 / 2, engagement_score = None,
      status = st, income_level = Some ''low_income''\<rparr>"


definition chi2_example :: "row list" where
  "chi2_example = replicate 3 (rec_row ''therapy'' (Some ''a'') ''viewed'')
                  @ [rec_row ''therapy'' (Some ''b'') ''viewed'']"

definition di_example :: "row list" where
  "di_example = [rec_row ''therapy'' (Some ''white'') ''viewed'',
                 rec_row ''therapy'' (Some ''b'') ''viewed'',
                 rec_row ''self_care'' (Some ''b'') ''viewed'']"

text \<open>
  A database for the real-time examples: users u1 and u2 of race group a and user u3 of
  race group b, all of low income; one therapy recommendation to u1 and four to u3.
\<close>

definition realtime_db :: database where
  "realtime_db =
     \<lparr>users = [\<lparr>pseudonym_id = ''u1'', u_age_group = Some ''adult'', u_gender_identity = None,
                  u_race_ethnicity = Some ''a''\<rparr>,
                \<lparr>pseudonym_id = ''u2'', u_age_group = Some ''adult'', u_gender_identity = None,
                  u_race_ethnicity = Some ''a''\<rparr>,
                \<lparr>pseudonym_id = ''u3'', u_age_group = Some ''adult'', u_gender_identity = None,
                  u_race_ethnicity = Some ''b''\<rparr>],
      social_determinants_rows =
               [\<lparr>sd_user_pseudonym_id = ''u1'', sd_income_level = Some ''low_income''\<rparr>,
                \<lparr>sd_user_pseudonym_id = ''u2'', sd_income_level = Some ''low_income''\<rparr>,
                \<lparr>sd_user_pseudonym_id = ''u3'', sd_income_level = Some ''low_income''\<rparr>],
      resource_recommendations =
               \<lparr>rr_user_pseudonym_id = ''u1'', rr_resource_type = ''therapy'',
                 rr_confidence_score = 1 / 2, rr_engagement_score = None,
                 rr_status = ''viewed'', recommended_at = 0\<rparr>
               # replicate 4 \<lparr>rr_user_pseudonym_id = ''u3'', rr_resource_type = ''therapy'',
                 rr_confidence_score = 1 / 2, rr_engagement_score = None,
                 rr_status = ''viewed'', recommended_at = 0\<rparr>\<rparr>"

definition therapy_request :: recommendation_data where
  "therapy_request = \<lparr>rd_resource_type = Some ''therapy'', rd_confidence_score = None\<rparr>"


definition user1 :: user where
  "user1 = \<lparr>pseudonym_id = ''u1'', u_age_group = Some ''adult'', u_gender_identity = None,
              u_race_ethnicity = Some ''a''\<rparr>"

definition user3 :: user where
  "user3 = \<lparr>pseudonym_id = ''u3'', u_age_group = Some ''adult'', u_gender_identity = None,
              u_race_ethnicity = Some ''b''\<rparr>"

definition sdoh_low :: "string \<Rightarrow> social_determinants" where
  "sdoh_low uid = \<lparr>sd_user_pseudonym_id = uid, sd_income_level = Some ''low_income''\<rparr>"

text \<open>
  A second database for the real-time examples: user v1 of race group a with one
  therapy and three self-care recommendations, and user v2 of race group b with four
  therapy recommendations.
\<close>

definition user_v1 :: user where
  "user_v1 = \<lparr>pseudonym_id = ''v1'', u_age_group = Some ''adult'', u_gender_identity = None,
              u_race_ethnicity = Some ''a''\<rparr>"

definition rec_of :: "string \<Rightarrow> string \<Rightarrow> resource_recommendation" where
  "rec_of uid rt = \<lparr>rr_user_pseudonym_id = uid, rr_resource_type = rt,
                    rr_confidence_score = 1 / 2, rr_engagement_score = None,
                    rr_status = ''viewed'', recommended_at = 0\<rparr>"

definition realtime_db2 :: database where
  "realtime_db2 =
     \<lparr>users = [user_v1,
                \<lparr>pseudonym_id = ''v2'', u_age_group = Some ''adult'', u_gender_identity = None,
                  u_race_ethnicity = Some ''b''\<rparr>],
      social_determinants_rows = [sdoh_low ''v1'', sdoh_low ''v2''],
      resource_recommendations =
        rec_of ''v1'' ''therapy'' # replicate 3 (rec_of ''v1'' ''self_care'')
        @ replicate 4 (rec_of ''v2'' ''therapy'')\<rparr>"

text \<open>
  A database for the window examples, read at the moment \<open>now_example\<close>: one user with
  two recommendations, one of them 100 days old and one from day 0.
\<close>

definition now_example :: int where
  "now_example = 739000 * microseconds_per_day"

definition window_db :: database where
  "window_db =
     \<lparr>users = [\<lparr>pseudonym_id = ''u1'', u_age_group = Some ''adult'', u_gender_identity = None,
                  u_race_ethnicity = Some ''a''\<rparr>],
      social_determinants_rows =
               [\<lparr>sd_user_pseudonym_id = ''u1'', sd_income_level = Some ''low_income''\<rparr>],
      resource_recommendations =
               [\<lparr>rr_user_pseudonym_id = ''u1'', rr_resource_type = ''therapy'',
                 rr_confidence_score = 1 / 2, rr_engagement_score = None,
                 rr_status = ''viewed'', recommended_at = 738900 * microseconds_per_day\<rparr>,
                \<lparr>rr_user_pseudonym_id = ''u1'', rr_resource_type = ''therapy'',
                 rr_confidence_score = 1 / 2, rr_engagement_score = None,
                 rr_status = ''viewed'', recommended_at = 0\<rparr>]\<rparr>"

text \<open>
  Tables for the equalized-odds examples: the scenario of the specification (60 rows of
  group A with 30 successes, 40 rows of group B with 36), a table without any success,
  and a table where only group A has a success.
\<close>

definition scenario :: "row list" where
  "scenario = replicate 30 (rec_row ''therapy'' (Some ''A'') ''completed'')
              @ replicate 30 (rec_row ''therapy'' (Some ''A'') ''viewed'')
              @ replicate 36 (rec_row ''therapy'' (Some ''B'') ''completed'')
              @ replicate 4 (rec_row ''therapy'' (Some ''B'') ''dismissed'')"

definition no_success_example :: "row list" where
  "no_success_example = [rec_row ''therapy'' (Some ''A'') ''viewed'',
                         rec_row ''therapy'' (Some ''B'') ''dismissed'']"

definition zero_success_example :: "row list" where
  "zero_success_example = [rec_row ''therapy'' (Some ''A'') ''completed'',
                           rec_row ''therapy'' (Some ''A'') ''viewed'',
                           rec_row ''therapy'' (Some ''B'') ''viewed'']"





section \<open>Series and groups\<close>

lemma set_unique: "set (unique xs) = set xs"
  by (simp add: unique_def)

lemma distinct_unique: "distinct (unique xs)"
  by (simp add: unique_def)

lemma set_dropna: "set (dropna vs) = {x. Some x \<in> set vs}"
  by (induction vs) (auto split: option.splits)

lemma dropna_map_Some: "dropna (map (Some \<circ> f) xs) = map f xs"
  by (induction xs) auto

lemma map_of_groupby_size:
  "map_of (groupby_size col df) g =
     (if Some g \<in> set (map col df) then Some (length (filter (\<lambda>r. col r = Some g) df)) else None)"
  by (auto simp: groupby_size_def map_of_map_restrict set_unique set_dropna restrict_map_def)

lemma distinct_groupby_size: "distinct (map fst (groupby_size col df))"
  by (simp add: groupby_size_def comp_def distinct_unique)

lemma groupby_size_pos: "(g, n) \<in> set (groupby_size col df) \<Longrightarrow> 0 < n"
proof -
  assume "(g, n) \<in> set (groupby_size col df)"
  then have g: "Some g \<in> set (map col df)" and n: "n = length (filter (\<lambda>r. col r = Some g) df)"
    by (auto simp: groupby_size_def set_unique set_dropna)
  from g obtain r where "r \<in> set df" "col r = Some g" by auto
  then have "filter (\<lambda>r. col r = Some g) df \<noteq> []" by (auto simp: filter_empty_conv)
  with n show ?thesis by simp
qed


lemma series_max_Some:
  "series_max (map (Some \<circ> f) xs) = (if xs = [] then None else Some (Max (f ` set xs)))"
  unfolding series_max_def dropna_map_Some
  by (cases xs) (simp_all add: Max.set_eq_fold [symmetric])

lemma series_min_Some:
  "series_min (map (Some \<circ> f) xs) = (if xs = [] then None else Some (Min (f ` set xs)))"
  unfolding series_min_def dropna_map_Some
  by (cases xs) (simp_all add: Min.set_eq_fold [symmetric])



section \<open>The chi-square test never leaves its degenerate case\<close>

lemma expected_freq_one_row:
  "expected_freq [counts] =
     [map (\<lambda>c. of_nat (sum_list counts) * of_nat c / of_nat (sum_list counts)) counts]"
proof -
  have "map (\<lambda>j. f (counts ! j)) [0..<length counts] = map f counts" for f :: "nat \<Rightarrow> rat"
    by (rule nth_equalityI) simp_all
  then show ?thesis by (simp add: expected_freq_def)
qed

lemma chi2_contingency_one_row:
  assumes "counts \<noteq> []" and "\<forall>c \<in> set counts. 0 < c"
  shows "chi2_contingency st [counts] = Inr (0, 1)"
proof -
  obtain c where c: "c \<in> set counts" using assms(1) by (cases counts) auto
  then have "c \<le> sum_list counts" by (simp add: member_le_sum_list)
  moreover have "0 < c" using c assms(2) by simp
  ultimately have "0 < sum_list counts" by simp
  then have "\<not> list_ex (\<lambda>e. e = 0) (concat (expected_freq [counts]))"
    using assms(2) by (auto simp: expected_freq_one_row list_ex_iff)
  then show ?thesis using assms(1) by (simp add: chi2_contingency_def Let_def)
qed

lemma race_chi2_of_eq:
  "race_chi2_of self st df =
     Inr (if 1 < length (groupby_size race_ethnicity df)
          then Some \<lparr>statistic = 0, chi2_p_value = 1, significant = (1 < significance_level self)\<rparr>
          else None)"
proof (cases "1 < length (groupby_size race_ethnicity df)")
  case True
  then have "map snd (groupby_size race_ethnicity df) \<noteq> []" by auto
  moreover have "\<forall>c \<in> set (map snd (groupby_size race_ethnicity df)). 0 < c"
    using groupby_size_pos by fastforce
  ultimately have "chi2_contingency st [map snd (groupby_size race_ethnicity df)] = Inr (0, 1)"
    by (rule chi2_contingency_one_row)
  with True show ?thesis by (simp add: race_chi2_of_def)
next
  case False
  then show ?thesis by (simp add: race_chi2_of_def)
qed

lemma analyze_resource_type_bias_total:
  "\<exists>res. analyze_resource_type_bias self st df rt = Inr res"
  by (simp add: analyze_resource_type_bias_def race_chi2_of_eq)

lemma analyze_resource_type_bias_fields:
  assumes "analyze_resource_type_bias self st df rt = Inr res"
  shows "dp_race_ethnicity res = demographic_parity self race_ethnicity df"
    and "dp_income_level res = demographic_parity self income_level df"
    and "dp_gender_identity res = demographic_parity self gender_identity df"
    and "equalized_odds res = equalized_odds_race self df"
    and "calibration res = calibration_of st df"
    and "total_count res = length df"
  using assms by (auto simp: analyze_resource_type_bias_def race_chi2_of_eq)

text \<open>
  C4 (the code departs from the claim). The claim asks for a goodness-of-fit statistic
  against the uniform expectation, positive on non-uniform counts. The code passes the
  race counts to \<open>chi2_contingency\<close> as a table of one row, whose expected frequencies
  are the counts themselves: on three recommendations for one group and one for
  another, the counts being 3 and 1, the reported statistic is 0 with p-value 1 and no
  significance, where the goodness-of-fit statistic is 1.
\<close>

theorem race_chi2_is_degenerate:
  "map snd (groupby_size race_ethnicity chi2_example) = [3, 1] \<and>
   race_chi2_of init_analyzer st chi2_example =
     Inr (Some \<lparr>statistic = 0, chi2_p_value = 1, significant = False\<rparr>) \<and>
   goodness_of_fit_uniform [3, 1] = 1"
proof -
  have g: "groupby_size race_ethnicity chi2_example = [(''a'', 3), (''b'', 1)]"
    by (simp add: groupby_size_def chi2_example_def rec_row_def unique_def numeral_3_eq_3)
  have "goodness_of_fit_uniform [3, 1] = 1"
    by (simp add: goodness_of_fit_uniform_def power2_eq_square)
  then show ?thesis
    by (simp add: race_chi2_of_eq g init_analyzer_def)
qed

section \<open>Demographic parity\<close>




section \<open>Disparate impact\<close>

lemma di_example_table:
  "disparate_impact_table di_example =
     Some [(Some ''b'', \<lparr>therapy_rate = 1 / 2, white_therapy_rate = 1, ratio = 1 / 2,
                          passes_80_percent_rule = False\<rparr>)]"
  by (simp add: disparate_impact_table_def di_example_def rec_row_def unique_def
      therapy_rate_of_def count_race_def disparate_impact_of_def Let_def)

text \<open>
  C6. The disparate-impact entry of a race: the ratio is the race's therapy rate over
  the reference rate when the reference rate is positive and 0 when it is 0, the 80
  percent rule passes exactly when the ratio is at least 0.8, a positive rate against
  itself has ratio 1 and passes, and every entry of the table that
  \<open>_calculate_fairness_metrics\<close> reports is built this way from the therapy rates of
  the race and of the reference group.
\<close>

theorem disparate_impact_ratio_rule:
  "(0 < rate_b \<longrightarrow> ratio (disparate_impact_of rate_a rate_b) = rate_a / rate_b) \<and>
   (rate_b = 0 \<longrightarrow> ratio (disparate_impact_of rate_a rate_b) = 0) \<and>
   (passes_80_percent_rule (disparate_impact_of rate_a rate_b)
      \<longleftrightarrow> 8 / 10 \<le> ratio (disparate_impact_of rate_a rate_b)) \<and>
   (0 < r \<longrightarrow> ratio (disparate_impact_of r r) = 1 \<and> passes_80_percent_rule (disparate_impact_of r r)) \<and>
   (disparate_impact_table df = Some di \<and> (race, e) \<in> set di \<longrightarrow>
      e = disparate_impact_of (therapy_rate_of df race) (therapy_rate_of df (Some ''white'')))"
  by (auto simp: disparate_impact_of_def disparate_impact_table_def split: if_splits)

theorem disparate_impact_ratio_rule_witness:
  "(0::rat) < 1 / 2 \<and>
   ratio (disparate_impact_of (7 / 20) (1 / 2)) = 7 / 10 \<and>
   \<not> passes_80_percent_rule (disparate_impact_of (7 / 20) (1 / 2)) \<and>
   ratio (disparate_impact_of (7 / 20) 0) = 0 \<and>
   ratio (disparate_impact_of (1 / 2) (1 / 2)) = 1 \<and>
   passes_80_percent_rule (disparate_impact_of (1 / 2) (1 / 2)) \<and>
   disparate_impact_table di_example =
     Some [(Some ''b'', disparate_impact_of (therapy_rate_of di_example (Some ''b''))
                          (therapy_rate_of di_example (Some ''white'')))]"
proof -
  let ?e = "\<lparr>therapy_rate = 1 / 2, white_therapy_rate = 1, ratio = 1 / 2,
             passes_80_percent_rule = False\<rparr>"
  have m: "(Some ''b'', ?e) \<in> set [(Some ''b'', ?e)]" by simp
  have p: "(0::rat) < 1 / 2" by simp
  note T = disparate_impact_ratio_rule [of "1 / 2" "7 / 20" "1 / 2" di_example
      "[(Some ''b'', ?e)]" "Some ''b''" ?e]
  note T0 = disparate_impact_ratio_rule [of 0 "7 / 20" "1 / 2" di_example
      "[(Some ''b'', ?e)]" "Some ''b''" ?e]
  have a: "ratio (disparate_impact_of (7 / 20) (1 / 2)) = 7 / 10"
    using T p by simp
  have b: "\<not> passes_80_percent_rule (disparate_impact_of (7 / 20) (1 / 2))"
    using T a by simp
  have c: "ratio (disparate_impact_of (7 / 20) 0) = 0"
    using T0 by blast
  have d: "ratio (disparate_impact_of (1 / 2) (1 / 2)) = 1 \<and>
      passes_80_percent_rule (disparate_impact_of (1 / 2) (1 / 2))"
    using T p by blast
  have e: "?e = disparate_impact_of (therapy_rate_of di_example (Some ''b''))
                          (therapy_rate_of di_example (Some ''white''))"
    using T di_example_table m by blast
  show ?thesis using a b c d e di_example_table by simp
qed

section \<open>The real-time check: results\<close>

lemma user_lookup_None:
  assumes "\<forall>u \<in> set (users db). \<forall>sd \<in> set (social_determinants_rows db).
             \<not> (pseudonym_id u = sd_user_pseudonym_id sd \<and> pseudonym_id u = user_id)"
  shows "user_lookup db user_id = None"
proof -
  have "[(u, sd). u \<leftarrow> users db, sd \<leftarrow> social_determinants_rows db,
              pseudonym_id u = sd_user_pseudonym_id sd, pseudonym_id u = user_id] = []"
    using assms by auto
  then show ?thesis unfolding user_lookup_def by (simp only: list.simps)
qed

lemma max_severity_fold:
  "(case map f xs of [] \<Rightarrow> 0 | y # ys \<Rightarrow> fold max ys y) =
     (if xs = [] then (0::rat) else Max (f ` set xs))"
  by (cases xs) (simp_all add: Max.set_eq_fold [symmetric])

lemma realtime_result_fields:
  assumes "detect_algorithmic_bias_realtime db user_id rd = Inr (RealtimeResult r)"
  shows "\<exists>usr sdoh therapy. user_lookup db user_id = Some (usr, sdoh) \<and>
           therapy_check db usr sdoh rd = Inr therapy \<and>
           bias_indicators r = indicator_entry ''therapy_underrepresentation'' therapy
                               @ indicator_entry ''poor_calibration'' (calibration_check db rd) \<and>
           bias_detected r = (0 < length (bias_indicators r)) \<and>
           max_severity r = (case map (ind_severity \<circ> snd) (bias_indicators r) of
                               [] \<Rightarrow> 0 | x # xs \<Rightarrow> fold max xs x)"
  using assms
  by (auto simp: detect_algorithmic_bias_realtime_def Let_def
      split: option.splits sum.splits prod.splits)

text \<open>
  C10. When the join of users and social determinants has no record for the user id,
  \<open>detect_algorithmic_bias_realtime\<close> returns the error \<open>User not found\<close>, whatever the
  recommendation and the rest of the database are (so no cohort or calibration query
  can matter, not even one that would raise). When it returns a result,
  \<open>bias_detected\<close> holds exactly when there is an indicator, and \<open>max_severity\<close> is
  the largest severity of the indicators, 0 when there is none.
\<close>

theorem realtime_result_shape:
  "((\<forall>u \<in> set (users db). \<forall>sd \<in> set (social_determinants_rows db).
        \<not> (pseudonym_id u = sd_user_pseudonym_id sd \<and> pseudonym_id u = user_id))
      \<longrightarrow> detect_algorithmic_bias_realtime db user_id rd = Inr (RealtimeError ''User not found'')) \<and>
   (detect_algorithmic_bias_realtime db user_id rd = Inr (RealtimeResult r) \<longrightarrow>
      (bias_detected r \<longleftrightarrow> bias_indicators r \<noteq> []) \<and>
      max_severity r = (if bias_indicators r = [] then 0
                        else Max (ind_severity ` snd ` set (bias_indicators r))))"
proof (intro conjI impI)
  assume "\<forall>u \<in> set (users db). \<forall>sd \<in> set (social_determinants_rows db).
        \<not> (pseudonym_id u = sd_user_pseudonym_id sd \<and> pseudonym_id u = user_id)"
  then have "user_lookup db user_id = None" by (rule user_lookup_None)
  then show "detect_algorithmic_bias_realtime db user_id rd = Inr (RealtimeError ''User not found'')"
    by (simp add: detect_algorithmic_bias_realtime_def)
next
  assume a: "detect_algorithmic_bias_realtime db user_id rd = Inr (RealtimeResult r)"
  from realtime_result_fields [OF a]
  show "bias_detected r \<longleftrightarrow> bias_indicators r \<noteq> []" by auto
next
  assume a: "detect_algorithmic_bias_realtime db user_id rd = Inr (RealtimeResult r)"
  from realtime_result_fields [OF a]
  have "max_severity r = (case map (ind_severity \<circ> snd) (bias_indicators r) of
                               [] \<Rightarrow> 0 | x # xs \<Rightarrow> fold max xs x)" by auto
  then show "max_severity r = (if bias_indicators r = [] then 0
                        else Max (ind_severity ` snd ` set (bias_indicators r)))"
    by (simp add: max_severity_fold image_comp)
qed

lemma realtime_db_u1:
  "detect_algorithmic_bias_realtime realtime_db ''u1'' therapy_request =
     Inr (RealtimeResult
       \<lparr>demographics = \<lparr>ud_race_ethnicity = ''a'', ud_age_group = ''adult'',
                         ud_income_level = Some ''low_income''\<rparr>,
        bias_indicators = [(''therapy_underrepresentation'', TherapyUnderrepresentation (1 / 2) (1 / 2) 1)],
        bias_detected = True, max_severity = 1 / 2\<rparr>)"
  by (simp add: detect_algorithmic_bias_realtime_def user_lookup_def realtime_db_def
      therapy_request_def therapy_check_def therapy_underrepresentation_def similar_users_def
      total_similar_def calibration_check_def indicator_entry_def numeral_eq_Suc Let_def)

theorem realtime_result_shape_witness:
  "list_all (\<lambda>u. list_all (\<lambda>sd. \<not> (pseudonym_id u = sd_user_pseudonym_id sd \<and> pseudonym_id u = ''u4''))
        (social_determinants_rows realtime_db)) (users realtime_db) \<and>
   detect_algorithmic_bias_realtime realtime_db ''u4'' therapy_request
     = Inr (RealtimeError ''User not found'') \<and>
   detect_algorithmic_bias_realtime realtime_db ''u1'' therapy_request =
     Inr (RealtimeResult
       \<lparr>demographics = \<lparr>ud_race_ethnicity = ''a'', ud_age_group = ''adult'',
                         ud_income_level = Some ''low_income''\<rparr>,
        bias_indicators = [(''therapy_underrepresentation'', TherapyUnderrepresentation (1 / 2) (1 / 2) 1)],
        bias_detected = True, max_severity = 1 / 2\<rparr>)"
proof -
  have h: "\<forall>u \<in> set (users realtime_db). \<forall>sd \<in> set (social_determinants_rows realtime_db).
        \<not> (pseudonym_id u = sd_user_pseudonym_id sd \<and> pseudonym_id u = ''u4'')"
    by (simp add: realtime_db_def)
  have "detect_algorithmic_bias_realtime realtime_db ''u4'' therapy_request
     = Inr (RealtimeError ''User not found'')"
    using realtime_result_shape [of realtime_db "''u4''" therapy_request] h by blast
  then show ?thesis using h realtime_db_u1 by (simp add: list_all_iff)
qed


text \<open>
  The user that the lookup finds belongs to their own cohort, so the cohort of the
  checked user is never empty and the guard \<open>total_similar > 0\<close> of the therapy check
  never fails.
\<close>

lemma mem_join2:
  "(a, b) \<in> set (concat (map (\<lambda>u. concat (map (\<lambda>sd. if P u sd then if Q u then [(u, sd)] else [] else []) sds)) us))
     \<longleftrightarrow> a \<in> set us \<and> b \<in> set sds \<and> P a b \<and> Q a"
  by (force split: if_splits)

lemma user_lookup_Some:
  assumes "user_lookup db user_id = Some (usr, sdoh)"
  shows "usr \<in> set (users db) \<and> sdoh \<in> set (social_determinants_rows db) \<and>
         pseudonym_id usr = sd_user_pseudonym_id sdoh \<and> pseudonym_id usr = user_id"
proof -
  let ?l = "[(u, sd). u \<leftarrow> users db, sd \<leftarrow> social_determinants_rows db,
              pseudonym_id u = sd_user_pseudonym_id sd, pseudonym_id u = user_id]"
  from assms obtain rest where "?l = (usr, sdoh) # rest"
    unfolding user_lookup_def by (cases ?l) simp_all
  then have "(usr, sdoh) \<in> set ?l" by (simp only: list.set insertI1)
  then show ?thesis unfolding mem_join2 .
qed

lemma total_similar_pos:
  assumes "user_lookup db user_id = Some (usr, sdoh)"
  shows "0 < total_similar db usr sdoh"
proof -
  note m = user_lookup_Some [OF assms]
  let ?f = "\<lambda>u. concat (map (\<lambda>sd. if pseudonym_id u = sd_user_pseudonym_id sd
                 then if u_race_ethnicity u = u_race_ethnicity usr
                      then if sd_income_level sd = sd_income_level sdoh then [u] else [] else []
                 else []) (social_determinants_rows db))"
  have "usr \<in> set (?f usr)" using m by force
  then have "usr \<in> set (concat (map ?f (users db)))" using m by force
  then have "concat (map ?f (users db)) \<noteq> []" by force
  then show ?thesis unfolding total_similar_def by simp
qed

lemma map_of_indicators:
  "map_of (indicator_entry ''therapy_underrepresentation'' therapy
           @ indicator_entry ''poor_calibration'' cal) ''therapy_underrepresentation'' = therapy"
  by (cases therapy; cases cal) (simp_all add: indicator_entry_def)

lemma realtime_db_lookup: "user_lookup realtime_db ''u1'' = Some (user1, sdoh_low ''u1'')"
  by (simp add: user_lookup_def realtime_db_def user1_def sdoh_low_def)

lemma realtime_db_counts:
  "similar_users realtime_db user1 (sdoh_low ''u1'') = 1"
  "total_similar realtime_db user1 (sdoh_low ''u1'') = 2"
  "length (filter (\<lambda>r. rr_resource_type r = ''therapy'') (resource_recommendations realtime_db)) = 5"
  "length (resource_recommendations realtime_db) = 5"
  by (simp_all add: similar_users_def total_similar_def realtime_db_def user1_def sdoh_low_def
      numeral_eq_Suc)

text \<open>
  What the code computes. With a therapy recommendation in the database, a found user
  whose race and age group are not null, and a therapy request, the function returns a
  result, and the indicator \<open>therapy_underrepresentation\<close> is in it exactly when the
  quotient of the therapy recommendations to the cohort by the users of the cohort,
  over the overall share of therapy, is below 0.8. With no recommendation at all the
  overall share divides by zero.
\<close>

lemma therapy_underrepresentation_eq:
  assumes "0 < c" and "0 < t"
  shows "therapy_underrepresentation s c t a =
     (if a = 0 then Inl ZeroDivisionError
      else Inr (if (of_nat s / of_nat c) / (of_nat t / of_nat a) < (8 / 10 :: rat)
             then Some (TherapyUnderrepresentation
                          (1 - (of_nat s / of_nat c) / (of_nat t / of_nat a))
                          (of_nat s / of_nat c) (of_nat t / of_nat a))
             else None))"
  using assms by (simp add: therapy_underrepresentation_def Let_def)

lemma detect_of_check:
  assumes u: "user_lookup db user_id = Some (usr, sdoh)"
    and race: "u_race_ethnicity usr = Some race" and age: "u_age_group usr = Some age"
    and tc: "therapy_check db usr sdoh rd = Inr ind"
  shows "\<exists>r. detect_algorithmic_bias_realtime db user_id rd = Inr (RealtimeResult r) \<and>
     map_of (bias_indicators r) ''therapy_underrepresentation'' = ind"
  by (simp add: detect_algorithmic_bias_realtime_def u race age tc Let_def map_of_indicators
      del: map_of_append)

lemma detect_therapy_indicator:
  assumes u: "user_lookup db user_id = Some (usr, sdoh)"
    and race: "u_race_ethnicity usr = Some race" and age: "u_age_group usr = Some age"
    and rd: "rd_resource_type rd = Some ''therapy''"
    and t: "0 < length (filter (\<lambda>r. rr_resource_type r = ''therapy'') (resource_recommendations db))"
  shows "\<exists>r. detect_algorithmic_bias_realtime db user_id rd = Inr (RealtimeResult r) \<and>
     map_of (bias_indicators r) ''therapy_underrepresentation'' =
       (if (of_nat (similar_users db usr sdoh) / of_nat (total_similar db usr sdoh))
            / (of_nat (length (filter (\<lambda>r. rr_resource_type r = ''therapy'') (resource_recommendations db)))
                 / of_nat (length (resource_recommendations db))) < (8 / 10 :: rat)
        then Some (TherapyUnderrepresentation
               (1 - (of_nat (similar_users db usr sdoh) / of_nat (total_similar db usr sdoh))
                  / (of_nat (length (filter (\<lambda>r. rr_resource_type r = ''therapy'') (resource_recommendations db)))
                       / of_nat (length (resource_recommendations db))))
               (of_nat (similar_users db usr sdoh) / of_nat (total_similar db usr sdoh))
               (of_nat (length (filter (\<lambda>r. rr_resource_type r = ''therapy'') (resource_recommendations db)))
                  / of_nat (length (resource_recommendations db))))
        else None)"
proof -
  have c: "0 < total_similar db usr sdoh" by (rule total_similar_pos [OF u])
  have a: "length (resource_recommendations db) \<noteq> 0" using t by auto
  have "therapy_check db usr sdoh rd =
      therapy_underrepresentation (similar_users db usr sdoh) (total_similar db usr sdoh)
        (length (filter (\<lambda>r. rr_resource_type r = ''therapy'') (resource_recommendations db)))
        (length (resource_recommendations db))"
    using rd by (simp add: therapy_check_def)
  then have "therapy_check db usr sdoh rd =
      Inr (if (of_nat (similar_users db usr sdoh) / of_nat (total_similar db usr sdoh))
            / (of_nat (length (filter (\<lambda>r. rr_resource_type r = ''therapy'') (resource_recommendations db)))
                 / of_nat (length (resource_recommendations db))) < (8 / 10 :: rat)
        then Some (TherapyUnderrepresentation
               (1 - (of_nat (similar_users db usr sdoh) / of_nat (total_similar db usr sdoh))
                  / (of_nat (length (filter (\<lambda>r. rr_resource_type r = ''therapy'') (resource_recommendations db)))
                       / of_nat (length (resource_recommendations db))))
               (of_nat (similar_users db usr sdoh) / of_nat (total_similar db usr sdoh))
               (of_nat (length (filter (\<lambda>r. rr_resource_type r = ''therapy'') (resource_recommendations db)))
                  / of_nat (length (resource_recommendations db))))
        else None)"
    unfolding therapy_underrepresentation_eq [OF c t] using a by (simp only: if_False)
  then show ?thesis by (rule detect_of_check [OF u race age])
qed

lemma detect_without_recommendations:
  assumes u: "user_lookup db user_id = Some (usr, sdoh)"
    and rd: "rd_resource_type rd = Some ''therapy''"
    and n: "resource_recommendations db = []"
  shows "detect_algorithmic_bias_realtime db user_id rd = Inl ZeroDivisionError"
proof -
  have c: "0 < total_similar db usr sdoh" by (rule total_similar_pos [OF u])
  then show ?thesis
    using rd n
    by (simp add: detect_algorithmic_bias_realtime_def u therapy_check_def
        therapy_underrepresentation_def)
qed

lemma realtime_db2_lookup: "user_lookup realtime_db2 ''v1'' = Some (user_v1, sdoh_low ''v1'')"
  by (simp add: user_lookup_def realtime_db2_def user_v1_def sdoh_low_def)

text \<open>
  C9 (the code departs from the claim). The claim emits the indicator exactly when the
  therapy rate of the cohort over the overall therapy rate is below 0.8, both rates
  being shares of recommendations. In the second example database the cohort of v1 has
  one therapy recommendation among its four and the overall share is 5/8: the ratio
  is 2/5, below 0.8, and the claim emits the indicator with severity 3/5, but the code
  divides the one therapy recommendation by the one user of the cohort and emits
  nothing. In the first example database the cohort of u1 has the ratio 1 and the
  claim emits nothing, but the code emits the indicator with severity 1/2.
\<close>

theorem therapy_indicator_ignores_cohort_share:
  "user_lookup realtime_db2 ''v1'' = Some (user_v1, sdoh_low ''v1'') \<and>
   similar_users realtime_db2 user_v1 (sdoh_low ''v1'') = 1 \<and>
   total_similar realtime_db2 user_v1 (sdoh_low ''v1'') = 1 \<and>
   cohort_therapy_share realtime_db2 user_v1 (sdoh_low ''v1'') = 1 / 4 \<and>
   overall_therapy_share realtime_db2 = 5 / 8 \<and>
   share_ratio realtime_db2 user_v1 (sdoh_low ''v1'') = 2 / 5 \<and>
   detect_algorithmic_bias_realtime realtime_db2 ''v1'' therapy_request =
     Inr (RealtimeResult
       \<lparr>demographics = \<lparr>ud_race_ethnicity = ''a'', ud_age_group = ''adult'',
                         ud_income_level = Some ''low_income''\<rparr>,
        bias_indicators = [], bias_detected = False, max_severity = 0\<rparr>) \<and>
   share_ratio realtime_db user1 (sdoh_low ''u1'') = 1 \<and>
   map_of [(''therapy_underrepresentation'', TherapyUnderrepresentation (1 / 2) (1 / 2) 1)]
     ''therapy_underrepresentation'' = Some (TherapyUnderrepresentation (1 / 2) (1 / 2) 1) \<and>
   detect_algorithmic_bias_realtime realtime_db ''u1'' therapy_request =
     Inr (RealtimeResult
       \<lparr>demographics = \<lparr>ud_race_ethnicity = ''a'', ud_age_group = ''adult'',
                         ud_income_level = Some ''low_income''\<rparr>,
        bias_indicators = [(''therapy_underrepresentation'', TherapyUnderrepresentation (1 / 2) (1 / 2) 1)],
        bias_detected = True, max_severity = 1 / 2\<rparr>)"
proof -
  have 1: "share_ratio realtime_db2 user_v1 (sdoh_low ''v1'') = 2 / 5"
    by (simp add: share_ratio_def cohort_therapy_share_def cohort_recommendations_def
        overall_therapy_share_def realtime_db2_def user_v1_def sdoh_low_def rec_of_def
        filter_replicate)
  have 2: "detect_algorithmic_bias_realtime realtime_db2 ''v1'' therapy_request =
     Inr (RealtimeResult
       \<lparr>demographics = \<lparr>ud_race_ethnicity = ''a'', ud_age_group = ''adult'',
                         ud_income_level = Some ''low_income''\<rparr>,
        bias_indicators = [], bias_detected = False, max_severity = 0\<rparr>)"
    by (simp add: detect_algorithmic_bias_realtime_def user_lookup_def realtime_db2_def
      user_v1_def sdoh_low_def rec_of_def
      therapy_request_def therapy_check_def therapy_underrepresentation_def similar_users_def
      total_similar_def calibration_check_def indicator_entry_def filter_replicate Let_def)
  have 3: "share_ratio realtime_db user1 (sdoh_low ''u1'') = 1"
    by (simp add: share_ratio_def cohort_therapy_share_def cohort_recommendations_def
        overall_therapy_share_def realtime_db_def user1_def sdoh_low_def filter_replicate)
  have 4: "similar_users realtime_db2 user_v1 (sdoh_low ''v1'') = 1"
    "total_similar realtime_db2 user_v1 (sdoh_low ''v1'') = 1"
    by (simp_all add: similar_users_def total_similar_def realtime_db2_def user_v1_def
        sdoh_low_def rec_of_def filter_replicate)
  have 5: "cohort_therapy_share realtime_db2 user_v1 (sdoh_low ''v1'') = 1 / 4"
    "overall_therapy_share realtime_db2 = 5 / 8"
    by (simp_all add: cohort_therapy_share_def cohort_recommendations_def
        overall_therapy_share_def realtime_db2_def user_v1_def sdoh_low_def rec_of_def
        filter_replicate)
  show ?thesis using 1 2 3 4 5 realtime_db2_lookup realtime_db_u1 by simp
qed

text \<open>
  C2 (the code departs from the claim). The cohort rate of the real-time check divides
  a number of recommendations by a number of users. In the example database the cohort
  of u1 has two users and one recommendation, a therapy recommendation: the share of
  therapy among the cohort's recommendations is 1, as is the overall share, but the
  code computes the cohort rate 1/2 and reports under-representation with severity
  1/2. For the cohort of u3, one user with four therapy recommendations, the quotient
  of the two counts is 4.
\<close>

theorem cohort_rate_mixes_populations:
  "user_lookup realtime_db ''u1'' = Some (user1, sdoh_low ''u1'') \<and>
   similar_users realtime_db user1 (sdoh_low ''u1'') = 1 \<and>
   total_similar realtime_db user1 (sdoh_low ''u1'') = 2 \<and>
   cohort_therapy_share realtime_db user1 (sdoh_low ''u1'') = 1 \<and>
   detect_algorithmic_bias_realtime realtime_db ''u1'' therapy_request =
     Inr (RealtimeResult
       \<lparr>demographics = \<lparr>ud_race_ethnicity = ''a'', ud_age_group = ''adult'',
                         ud_income_level = Some ''low_income''\<rparr>,
        bias_indicators = [(''therapy_underrepresentation'', TherapyUnderrepresentation (1 / 2) (1 / 2) 1)],
        bias_detected = True, max_severity = 1 / 2\<rparr>) \<and>
   similar_users realtime_db user3 (sdoh_low ''u3'') = 4 \<and>
   total_similar realtime_db user3 (sdoh_low ''u3'') = 1"
proof -
  have "cohort_therapy_share realtime_db user1 (sdoh_low ''u1'') = 1"
    by (simp add: cohort_therapy_share_def cohort_recommendations_def realtime_db_def
        user1_def sdoh_low_def numeral_eq_Suc)
  moreover have "similar_users realtime_db user3 (sdoh_low ''u3'') = 4"
    "total_similar realtime_db user3 (sdoh_low ''u3'') = 1"
    by (simp_all add: similar_users_def total_similar_def realtime_db_def user3_def sdoh_low_def
      numeral_eq_Suc)
  ultimately show ?thesis
    using realtime_db_lookup realtime_db_counts(1,2) realtime_db_u1 by simp
qed

section \<open>The analysis of a window: results\<close>

lemma bias_tests_loop_total:
  "\<exists>tests. bias_tests_loop self st df rts = Inr tests \<and> map fst tests = rts"
proof (induction rts)
  case Nil
  show ?case by simp
next
  case (Cons rt rts)
  obtain b where b: "analyze_resource_type_bias self st (filter (\<lambda>r. resource_type r = rt) df) rt = Inr b"
    using analyze_resource_type_bias_total by blast
  from Cons obtain bs where "bias_tests_loop self st df rts = Inr bs" "map fst bs = rts" by blast
  with b show ?case by simp
qed

lemma analyze_recommendation_bias_returns:
  assumes "cutoff_date now days_back = Inr c"
  shows "\<exists>d. analyze_recommendation_bias self st db now days_back = Inr d \<and>
     (recommendation_rows db c = [] \<longrightarrow> d = ErrorDict no_recommendations) \<and>
     (recommendation_rows db c \<noteq> [] \<longrightarrow>
        get_analysis_period_days d = Some days_back \<and>
        get_total_recommendations d = Some (length (recommendation_rows db c)) \<and>
        get_error d = None)"
proof (cases "recommendation_rows db c = []")
  case True
  then show ?thesis using assms
    by (simp add: analyze_recommendation_bias_def no_recommendations_def)
next
  case False
  let ?df = "recommendation_rows db c"
  obtain tests where t: "bias_tests_loop self st ?df (unique (map resource_type ?df)) = Inr tests"
    using bias_tests_loop_total by blast
  have f: "calculate_fairness_metrics db ?df =
      Inr \<lparr>representation_parity = representation_parity_of db ?df,
           disparate_impact = disparate_impact_table ?df\<rparr>"
    using False by (simp add: calculate_fairness_metrics_def)
  show ?thesis using assms False t f
    by (simp add: analyze_recommendation_bias_def get_analysis_period_days_def
        get_total_recommendations_def get_error_def Let_def)
qed


lemma window_rows_90:
  "recommendation_rows window_db (now_example - 90 * microseconds_per_day) = []"
  by (simp add: recommendation_rows_def window_db_def now_example_def microseconds_per_day_def)


lemma window_cutoff_90: "cutoff_date now_example 90 = Inr (now_example - 90 * microseconds_per_day)"
  by (simp add: cutoff_date_def now_example_def microseconds_per_day_def)


text \<open>
  C1 (amended). For every window whose loaded data frame has no row, and every
  \<open>days_back\<close> whose cutoff date Python can represent, \<open>analyze_recommendation_bias\<close>
  raises nothing and returns the dictionary with the single key \<open>error\<close> and the
  message that no recommendations were found; that dictionary has no
  \<open>total_recommendations\<close> and no \<open>bias_tests\<close> entry.
\<close>

theorem empty_window_returns_error_dict:
  assumes "cutoff_date now days_back = Inr c" and "recommendation_rows db c = []"
  shows "analyze_recommendation_bias self st db now days_back = Inr (ErrorDict no_recommendations) \<and>
         get_error (ErrorDict no_recommendations) = Some no_recommendations \<and>
         get_total_recommendations (ErrorDict no_recommendations) = None \<and>
         get_bias_tests (ErrorDict no_recommendations) = None"
  using analyze_recommendation_bias_returns [OF assms(1), of self st db] assms(2)
  by (auto simp: get_error_def get_total_recommendations_def get_bias_tests_def)

theorem empty_window_returns_error_dict_witness:
  "cutoff_date now_example 90 = Inr (now_example - 90 * microseconds_per_day) \<and>
   recommendation_rows window_db (now_example - 90 * microseconds_per_day) = [] \<and>
   analyze_recommendation_bias init_analyzer example_stats window_db now_example 90
     = Inr (ErrorDict no_recommendations)"
  using empty_window_returns_error_dict [OF window_cutoff_90 window_rows_90, of init_analyzer example_stats]
    window_cutoff_90 window_rows_90 by simp

text \<open>
  C1 as stated fails: the only recommendations of the example database are older than
  90 days, the frame of the 90-day window is empty, and the result has neither
  \<open>total_recommendations = 0\<close> nor \<open>bias_tests = {}\<close>.
\<close>

theorem empty_window_has_no_total:
  "recommendation_rows window_db (now_example - 90 * microseconds_per_day) = [] \<and>
   analyze_recommendation_bias init_analyzer example_stats window_db now_example 90
     = Inr (ErrorDict no_recommendations) \<and>
   get_total_recommendations (ErrorDict no_recommendations) \<noteq> Some 0 \<and>
   get_bias_tests (ErrorDict no_recommendations) \<noteq> Some []"
proof -
  from analyze_recommendation_bias_returns [OF window_cutoff_90, of init_analyzer example_stats window_db]
  have "analyze_recommendation_bias init_analyzer example_stats window_db now_example 90
     = Inr (ErrorDict no_recommendations)"
    using window_rows_90 by auto
  then show ?thesis using window_rows_90
    by (simp add: get_total_recommendations_def get_bias_tests_def)
qed




section \<open>Equalized odds\<close>

lemma races_iff: "g \<in> races df \<longleftrightarrow> (\<exists>r \<in> set df. race_ethnicity r = Some g)"
  by (force simp: races_def image_iff)

lemma success_count_pos:
  "0 < success_count df g \<longleftrightarrow>
     (\<exists>r \<in> set df. race_ethnicity r = Some g \<and> (status r = ''engaged'' \<or> status r = ''completed''))"
  by (simp add: success_count_def filter_empty_conv)

lemma races_successful: "races (successful_outcomes df) = {g \<in> races df. 0 < success_count df g}"
proof (rule set_eqI)
  fix g
  have "g \<in> races (successful_outcomes df) \<longleftrightarrow>
      (\<exists>r \<in> set df. race_ethnicity r = Some g \<and> (status r = ''engaged'' \<or> status r = ''completed''))"
    unfolding races_iff by (auto simp: successful_outcomes_def)
  then show "g \<in> races (successful_outcomes df) \<longleftrightarrow> g \<in> {g \<in> races df. 0 < success_count df g}"
    unfolding success_count_pos by (auto simp: races_iff)
qed

lemma count_successful:
  "length (filter (\<lambda>r. race_ethnicity r = Some g) (successful_outcomes df)) = success_count df g"
  by (simp add: successful_outcomes_def success_count_def conj_commute)

lemma set_groupby_keys: "set (map fst (groupby_size race_ethnicity df)) = races df"
  by (auto simp: groupby_size_def set_unique set_dropna races_def comp_def)

lemma set_race_keys: "set (race_keys df) = races df"
  by (auto simp: race_keys_def set_unique set_groupby_keys races_successful simp del: set_map)

lemma distinct_race_keys: "distinct (race_keys df)"
  by (simp add: race_keys_def distinct_unique)

lemma success_by_race_eq:
  "success_by_race df =
     map (\<lambda>k. (k, if 0 < success_count df k then Some (success_rate df k) else None)) (race_keys df)"
proof -
  have "(case map_of (groupby_size race_ethnicity (successful_outcomes df)) k of None \<Rightarrow> None
         | Some x \<Rightarrow> (case map_of (groupby_size race_ethnicity df) k of None \<Rightarrow> None
             | Some y \<Rightarrow> Some (of_nat x / of_nat y)))
        = (if 0 < success_count df k then Some (success_rate df k) else None)"
    if "k \<in> set (race_keys df)" for k
  proof -
    from that have k: "k \<in> races df" by (simp add: set_race_keys)
    then have b: "map_of (groupby_size race_ethnicity df) k = Some (group_total df k)"
      by (simp add: map_of_groupby_size races_def group_total_def)
    have a: "map_of (groupby_size race_ethnicity (successful_outcomes df)) k =
        (if 0 < success_count df k then Some (success_count df k) else None)"
      using k races_successful [of df]
      by (auto simp: map_of_groupby_size count_successful races_def)
    show ?thesis by (simp add: a b success_rate_def)
  qed
  then show ?thesis
    by (simp add: success_by_race_def series_div_def race_keys_def [symmetric])
qed

lemma success_rate_zero: "\<not> 0 < success_count df k \<Longrightarrow> success_rate df k = 0"
  by (simp add: success_rate_def)

lemma fillna_success_by_race:
  "fillna 0 (success_by_race df) = map (\<lambda>k. (k, success_rate df k)) (race_keys df)"
  by (simp add: success_by_race_eq fillna_def success_rate_zero)

lemma success_rates_meet_spec:
  assumes "equalized_odds_race self df = Some e"
  shows "success_rates_spec df e"
proof -
  from assms have "success_rates e = map (\<lambda>k. (k, success_rate df k)) (race_keys df)"
    by (auto simp: equalized_odds_race_def Let_def fillna_success_by_race split: if_splits)
  then show ?thesis
    by (simp add: success_rates_spec_def map_of_map_restrict restrict_map_def set_race_keys)
qed


lemma success_by_race_all:
  assumes "\<forall>g \<in> races df. 0 < success_count df g"
  shows "map snd (success_by_race df) = map (Some \<circ> success_rate df) (race_keys df)"
  using assms by (simp add: success_by_race_eq set_race_keys comp_def)

lemma length_success_by_race: "length (success_by_race df) = length (race_keys df)"
  by (simp add: success_by_race_eq)

lemma short_keys:
  assumes "\<not> 1 < length (race_keys df)" and "races df \<noteq> {}"
  shows "\<exists>g. races df = {g}"
proof -
  from assms(2) have "race_keys df \<noteq> []" using set_race_keys [of df] by auto
  with assms(1) obtain g where "race_keys df = [g]"
    by (cases "race_keys df") auto
  then have "races df = {g}" using set_race_keys [of df] by simp
  then show ?thesis by blast
qed

lemma max_difference_meets_spec:
  assumes e: "equalized_odds_race self df = Some e"
    and thr: "0 \<le> fairness_threshold self"
    and all: "\<forall>g \<in> races df. 0 < success_count df g"
  shows "max_difference_spec (fairness_threshold self) df e"
proof -
  let ?R = "success_rate df ` races df"
  let ?s = "success_by_race df"
  let ?d = "fsub (series_max (map snd ?s)) (series_min (map snd ?s))"
  from e have md: "eo_max_difference e = (if 1 < length ?s then ?d else Some 0)"
    and bi: "eo_biased e = (1 < length ?s \<and> fgt ?d (fairness_threshold self))"
    by (auto simp: equalized_odds_race_def Let_def split: if_splits)
  show ?thesis
  proof (cases "1 < length (race_keys df)")
    case True
    then have ne: "race_keys df \<noteq> []" by auto
    then have "races df \<noteq> {}" using set_race_keys [of df] by auto
    moreover have "?d = Some (Max ?R - Min ?R)"
      using ne by (simp add: success_by_race_all [OF all] series_max_Some series_min_Some
          fsub_def set_race_keys)
    ultimately show ?thesis using True md bi
      by (simp add: max_difference_spec_def length_success_by_race fgt_def)
  next
    case False
    show ?thesis
    proof (cases "races df = {}")
      case True
      with False md bi show ?thesis
        by (simp add: max_difference_spec_def length_success_by_race)
    next
      case ne: False
      with False obtain g where "races df = {g}" using short_keys by blast
      with False md bi thr show ?thesis
        by (simp add: max_difference_spec_def length_success_by_race)
    qed
  qed
qed

lemma equalized_odds_race_None: "successful_outcomes df = [] \<Longrightarrow> equalized_odds_race self df = None"
  by (simp add: equalized_odds_race_def)

lemma equalized_odds_race_Some:
  "successful_outcomes df \<noteq> [] \<Longrightarrow> \<exists>e. equalized_odds_race self df = Some e"
  by (simp add: equalized_odds_race_def Let_def)

text \<open>
  C8 (amended). A table with no successful row (status engaged or completed) gets no
  equalized-odds entry. A table with a successful row gets one, whose success rate of
  every race group that has a row is the group's successful rows over its rows; when
  moreover every such group has a successful row, \<open>max_difference\<close> is the largest
  minus the smallest of these rates and \<open>biased\<close> says that it exceeds the fairness
  threshold (assumed non-negative). In the scenario of 60 rows of group A with 30
  successes and 40 rows of group B with 36, the difference is 0.4 and the entry is
  biased at threshold 0.1. The entry is the one that \<open>_analyze_resource_type_bias\<close>
  returns.
\<close>

theorem equalized_odds_reported:
  assumes "0 \<le> fairness_threshold self"
  shows "(successful_outcomes df = [] \<longrightarrow> equalized_odds_race self df = None) \<and>
     (successful_outcomes df \<noteq> [] \<longrightarrow>
        (\<exists>e. equalized_odds_race self df = Some e \<and> success_rates_spec df e \<and>
           ((\<forall>g \<in> races df. 0 < success_count df g) \<longrightarrow>
              max_difference_spec (fairness_threshold self) df e))) \<and>
     (races df = {A, B} \<and> A \<noteq> B \<and> group_total df A = 60 \<and> success_count df A = 30 \<and>
      group_total df B = 40 \<and> success_count df B = 36 \<and> fairness_threshold self = 1 / 10 \<longrightarrow>
        (\<exists>e. equalized_odds_race self df = Some e \<and>
           eo_max_difference e = Some (4 / 10) \<and> eo_biased e)) \<and>
     (\<exists>res. analyze_resource_type_bias self st df rt = Inr res \<and>
        equalized_odds res = equalized_odds_race self df)"
proof -
  have 1: "successful_outcomes df = [] \<longrightarrow> equalized_odds_race self df = None"
    by (simp add: equalized_odds_race_None)
  have 2: "\<exists>e. equalized_odds_race self df = Some e \<and> success_rates_spec df e \<and>
           ((\<forall>g \<in> races df. 0 < success_count df g) \<longrightarrow>
              max_difference_spec (fairness_threshold self) df e)"
    if "successful_outcomes df \<noteq> []"
  proof -
    from that obtain e where e: "equalized_odds_race self df = Some e"
      using equalized_odds_race_Some by blast
    show ?thesis
      using e success_rates_meet_spec [OF e] max_difference_meets_spec [OF e assms] by blast
  qed
  have 3: "\<exists>e. equalized_odds_race self df = Some e \<and>
           eo_max_difference e = Some (4 / 10) \<and> eo_biased e"
    if h: "races df = {A, B} \<and> A \<noteq> B \<and> group_total df A = 60 \<and> success_count df A = 30 \<and>
      group_total df B = 40 \<and> success_count df B = 36 \<and> fairness_threshold self = 1 / 10"
  proof -
    from h have "A \<in> races (successful_outcomes df)" by (simp add: races_successful)
    then have "successful_outcomes df \<noteq> []" by (auto simp: races_def)
    moreover from h have all: "\<forall>g \<in> races df. 0 < success_count df g" by auto
    ultimately obtain e where e: "equalized_odds_race self df = Some e"
      and m: "max_difference_spec (fairness_threshold self) df e"
      using 2 by blast
    from h have a: "success_rate df A = 1 / 2" and b: "success_rate df B = 9 / 10"
      by (simp_all add: success_rate_def)
    from m h have "eo_max_difference e = Some (4 / 10) \<and> eo_biased e"
      by (simp add: max_difference_spec_def a b)
    with e show ?thesis by blast
  qed
  have 4: "\<exists>res. analyze_resource_type_bias self st df rt = Inr res \<and>
        equalized_odds res = equalized_odds_race self df"
    using analyze_resource_type_bias_total analyze_resource_type_bias_fields(4) by blast
  from 1 2 3 4 show ?thesis by blast
qed

lemma scenario_counts:
  "races scenario = {''A'', ''B''}"
  "group_total scenario ''A'' = 60" "success_count scenario ''A'' = 30"
  "group_total scenario ''B'' = 40" "success_count scenario ''B'' = 36"
  by (auto simp: races_def scenario_def rec_row_def group_total_def success_count_def)

theorem equalized_odds_reported_witness:
  "0 \<le> fairness_threshold init_analyzer \<and> races scenario = {''A'', ''B''} \<and> ''A'' \<noteq> ''B'' \<and>
   group_total scenario ''A'' = 60 \<and> success_count scenario ''A'' = 30 \<and>
   group_total scenario ''B'' = 40 \<and> success_count scenario ''B'' = 36 \<and>
   fairness_threshold init_analyzer = 1 / 10 \<and>
   (\<exists>e. equalized_odds_race init_analyzer scenario = Some e \<and>
      eo_max_difference e = Some (4 / 10) \<and> eo_biased e)"
proof -
  have t: "0 \<le> fairness_threshold init_analyzer" "fairness_threshold init_analyzer = 1 / 10"
    by (simp_all add: init_analyzer_def)
  have n: "''A'' \<noteq> ''B''" by simp
  from equalized_odds_reported [OF t(1), of scenario "''A''" "''B''" example_stats "''therapy''"]
    scenario_counts t(2) n
  have "\<exists>e. equalized_odds_race init_analyzer scenario = Some e \<and>
      eo_max_difference e = Some (4 / 10) \<and> eo_biased e"
    by blast
  then show ?thesis using t n scenario_counts by blast
qed

text \<open>
  C8 as stated fails: in a table whose two groups have rows but no success, no rate,
  difference or bias flag is reported.
\<close>

theorem no_success_no_equalized_odds:
  "group_total no_success_example ''A'' = 1 \<and> group_total no_success_example ''B'' = 1 \<and>
   equalized_odds_race init_analyzer no_success_example = None"
  by (simp add: group_total_def no_success_example_def rec_row_def equalized_odds_race_def
      successful_outcomes_def)

text \<open>
  What the amended statement leaves open: a group without a successful row, beside a
  group with one, is listed with rate 0 but is NaN in the series whose maximum and
  minimum are taken, so the difference below is 0 and not 1/2.
\<close>

lemma zero_success_group_is_skipped:
  "equalized_odds_race init_analyzer zero_success_example =
     Some \<lparr>success_rates = [(''A'', 1 / 2), (''B'', 0)], eo_max_difference = Some 0,
           eo_biased = False\<rparr>"
  by (simp add: equalized_odds_race_def zero_success_example_def rec_row_def
      successful_outcomes_def success_by_race_def series_div_def groupby_size_def unique_def
      fillna_def series_max_def series_min_def fsub_def fgt_def init_analyzer_def Let_def)

section \<open>Calibration\<close>








































end
